theory Spec2Isabelle
  imports Complex_Main "HOL-Library.Sublist"
begin

section \<open>Strings of the Go standard library\<close>

text \<open>
  Go strings are byte sequences; they are modelled as \<open>string\<close> (a list of characters).
  \<open>strings.HasPrefix\<close> and \<open>strings.HasSuffix\<close> are the prefix and suffix tests.
\<close>

definition HasPrefix :: "string \<Rightarrow> string \<Rightarrow> bool" where
  "HasPrefix s p = prefix p s"

definition HasSuffix :: "string \<Rightarrow> string \<Rightarrow> bool" where
  "HasSuffix s x = suffix x s"

subsection \<open>path.Clean\<close>

text \<open>
  \<open>path.Clean\<close> belongs to the Go standard library. It is modelled after its documented
  rules: multiple slashes collapse, every \<open>.\<close> element goes, every inner \<open>..\<close> element goes
  together with the element before it, a \<open>..\<close> at the beginning of a rooted path goes, and
  the empty result is \<open>.\<close>.
\<close>

fun split_slash :: "string \<Rightarrow> string list" where
  "split_slash [] = [[]]"
| "split_slash (c # cs) =
     (if c = CHR ''/'' then [] # split_slash cs
      else (case split_slash cs of
              [] \<Rightarrow> [[c]]
            | w # ws \<Rightarrow> (c # w) # ws))"

fun join_slash :: "string list \<Rightarrow> string" where
  "join_slash [] = []"
| "join_slash [w] = w"
| "join_slash (w # ws) = w @ ''/'' @ join_slash ws"

definition clean_elem :: "bool \<Rightarrow> string list \<Rightarrow> string \<Rightarrow> string list" where
  "clean_elem rooted out c =
     (if c = [] \<or> c = ''.'' then out
      else if c = ''..'' then
        (if out \<noteq> [] \<and> last out \<noteq> ''..'' then butlast out
         else if \<not> rooted then out @ [''..'']
         else out)
      else out @ [c])"

definition path_Clean :: "string \<Rightarrow> string" where
  "path_Clean p =
     (if p = [] then ''.''
      else
        (let rooted = (hd p = CHR ''/'');
             out = foldl (clean_elem rooted) [] (split_slash p);
             r = (if rooted then ''/'' else []) @ join_slash out
         in if r = [] then ''.'' else r))"

subsection \<open>strings.Replace, strings.Contains, strings.LastIndex\<close>

text \<open>
  \<open>strings.Replace(s, old, new, -1)\<close> replaces the occurrences of \<open>old\<close> from left to
  right, without overlap. For an empty \<open>old\<close> the library inserts \<open>new\<close> before every rune
  and at the end; the model does so at every character, which is the same on ASCII
  strings.
\<close>

function replace_from :: "string \<Rightarrow> string \<Rightarrow> string \<Rightarrow> string" where
  "replace_from old new s =
     (if old = [] \<or> s = [] then s
      else if prefix old s then new @ replace_from old new (drop (length old) s)
      else hd s # replace_from old new (tl s))"
  by pat_completeness auto
termination
  by (relation "measure (\<lambda>(old, new, s). length s)") auto

declare replace_from.simps [simp del]

definition Replace :: "string \<Rightarrow> string \<Rightarrow> string \<Rightarrow> string" where
  "Replace s old new =
     (if old = new then s
      else if old = [] then new @ concat (map (\<lambda>c. c # new) s)
      else replace_from old new s)"

fun Contains :: "string \<Rightarrow> string \<Rightarrow> bool" where
  "Contains [] substr = (substr = [])"
| "Contains (c # cs) substr = (prefix substr (c # cs) \<or> Contains cs substr)"

text \<open>\<open>strings.LastIndex(s, ".")\<close>: the index of the last dot, \<open>None\<close> for the library's -1.\<close>

fun LastIndexDot :: "string \<Rightarrow> nat option" where
  "LastIndexDot [] = None"
| "LastIndexDot (c # cs) =
     (case LastIndexDot cs of
        Some i \<Rightarrow> Some (Suc i)
      | None \<Rightarrow> if c = CHR ''.'' then Some 0 else None)"

subsection \<open>path.Split, path.Join\<close>

text \<open>
  \<open>path.Split\<close> cuts after the last slash; \<open>path.Join\<close> joins the elements that are not
  empty with slashes and cleans the result (the empty string when there is none).
\<close>

fun path_Split :: "string \<Rightarrow> string \<times> string" where
  "path_Split [] = ([], [])"
| "path_Split (c # cs) =
     (case path_Split cs of
        (dir, file) \<Rightarrow>
          if dir = [] \<and> c \<noteq> CHR ''/'' then ([], c # file) else (c # dir, file))"

definition path_Join :: "string list \<Rightarrow> string" where
  "path_Join elems =
     (let nonEmpty = filter (\<lambda>e. e \<noteq> []) elems
      in if nonEmpty = [] then [] else path_Clean (join_slash nonEmpty))"

section \<open>pkg/types\<close>

text \<open>
  The package \<open>types\<close> is not among the sources. \<open>MimeType\<close> is a Go string type whose
  empty value means that no codec is selected; the constants below carry the MIME names
  of the codecs. \<open>OutputType\<close>, \<open>EgressType\<close> and \<open>SourceType\<close> are used as enumerations:
  \<open>OutputTypeUnknownFile\<close> is the empty output type and \<open>SourceTypeUnset\<close> the value of a
  source type that was never assigned. The tables of the package (codec compatibility,
  default codecs, file extensions) are parameters of the model, gathered in the record
  \<open>Tables\<close>; a codec set \<open>map[MimeType]bool\<close> is the list of its keys.
\<close>

type_synonym MimeType = string

definition MimeTypeAAC :: MimeType where
  "MimeTypeAAC = ''audio/aac''"

definition MimeTypeOpus :: MimeType where
  "MimeTypeOpus = ''audio/opus''"

definition MimeTypeRawAudio :: MimeType where
  "MimeTypeRawAudio = ''audio/x-raw''"

definition MimeTypeH264 :: MimeType where
  "MimeTypeH264 = ''video/h264''"

definition MimeTypeVP8 :: MimeType where
  "MimeTypeVP8 = ''video/vp8''"

definition MimeTypeRawVideo :: MimeType where
  "MimeTypeRawVideo = ''video/x-raw''"

datatype OutputType =
    OutputTypeUnknownFile
  | OutputTypeRaw
  | OutputTypeOGG
  | OutputTypeIVF
  | OutputTypeMP4
  | OutputTypeTS
  | OutputTypeWebM
  | OutputTypeRTMP
  | OutputTypeHLS

datatype EgressType = EgressTypeFile | EgressTypeStream | EgressTypeWebsocket | EgressTypeSegments

datatype SourceType = SourceTypeWeb | SourceTypeSDK | SourceTypeUnset

datatype Profile = ProfileUnset | ProfileBaseline | ProfileMain | ProfileHigh

type_synonym FileExtension = string

record Tables =
  CodecCompatibility :: "OutputType \<Rightarrow> MimeType list"
  AllOutputAudioCodecs :: "MimeType list"
  AllOutputVideoCodecs :: "MimeType list"
  DefaultAudioCodecs :: "OutputType \<Rightarrow> MimeType"
  DefaultVideoCodecs :: "OutputType \<Rightarrow> MimeType"
  FileExtensionForOutputType :: "OutputType \<Rightarrow> FileExtension"
  FileExtensions :: "FileExtension list"
  AudioOnlyFileOutputTypes :: "OutputType list"
  VideoOnlyFileOutputTypes :: "OutputType list"
  AudioVideoFileOutputTypes :: "OutputType list"
  GetOutputTypeCompatibleWithCodecs ::
    "OutputType list \<Rightarrow> MimeType list option \<Rightarrow> MimeType list option \<Rightarrow> OutputType"

text \<open>
  Modelled from the spec: \<open>types.GetMapIntersection\<close>, which is not among the sources
  (``intersect with each output's codec-compatibility set''). The keys of the first map
  that the second map holds.
\<close>

definition GetMapIntersection :: "MimeType list \<Rightarrow> MimeType list \<Rightarrow> MimeType list" where
  "GetMapIntersection mapA mapB = filter (\<lambda>k. k \<in> set mapB) mapA"

section \<open>pkg/errors and the errors of the media framework\<close>

text \<open>
  A \<open>gst.GError\<close> carries its message and its debug string. \<open>parseDebugInfo\<close> matches the
  debug string against a regular expression and returns the element, the name and the
  message it finds there; the model takes the three matched groups as fields of the error.
  The package \<open>errors\<close> is not among the sources: its constructors are the constructors of
  \<open>error\<close>, and \<open>ErrOther\<close> stands for any error that comes from a library or from a part
  of the repository that is not among the sources, and \<open>Panic\<close> for a Go panic.
\<close>

record GError =
  Message :: string
  dbg_element :: string
  dbg_name :: string
  dbg_message :: string

datatype error =
    ErrGstPipelineError GError
  | ErrInvalidInput string
  | ErrInvalidUrl string string
  | ErrNoCompatibleCodec
  | ErrIncompatible OutputType MimeType
  | ErrNoCompatibleFileOutputType
  | ErrOther string
  | Panic string

section \<open>pkg/config\<close>

datatype EgressStatus =
    EGRESS_STARTING
  | EGRESS_ACTIVE
  | EGRESS_ENDING
  | EGRESS_COMPLETE
  | EGRESS_FAILED
  | EGRESS_ABORTED

text \<open>\<open>livekit.EgressInfo\<close>, without the echo of the request and the results of the outputs.\<close>

record EgressInfo =
  EgressId :: string
  RoomId :: string
  RoomName :: string
  Status :: EgressStatus
  UpdatedAt :: int
  EndedAt :: int
  Error :: string

record outputConfig =
  OutputType :: OutputType

record FileConfig = outputConfig +
  Filename :: string
  LocalFilepath :: string
  StorageFilepath :: string
  DisableManifest :: bool
  UploadConfig :: "string option"

record StreamConfig = outputConfig +
  Urls :: "string list"
  StreamInfo :: "string \<rightharpoonup> string"

record SegmentConfig = outputConfig +
  LocalDir :: string
  StorageDir :: string
  PlaylistFilename :: string
  SegmentPrefix :: string
  PlaylistName :: string

datatype OutputConfig =
    File FileConfig
  | Stream StreamConfig
  | Segment SegmentConfig

fun GetOutputType :: "OutputConfig \<Rightarrow> OutputType" where
  "GetOutputType (File c) = OutputType c"
| "GetOutputType (Stream c) = OutputType c"
| "GetOutputType (Segment c) = OutputType c"

text \<open>
  \<open>PipelineConfig\<close> with the fields of the structures it embeds (\<open>BaseConfig\<close>,
  \<open>SourceConfig\<close>, \<open>AudioConfig\<close>, \<open>VideoConfig\<close>) that the functions below read or write.
  \<open>Outputs\<close> is a Go map; it is the list of its entries, and a loop over the map runs
  through the list in order (Go leaves the order open, and the theorems hold for every
  list). The channel \<open>Failure\<close> is the list of the errors sent to it.
\<close>

record PipelineConfig =
  HandlerID :: string
  TmpDir :: string
  ApiKey :: string
  ApiSecret :: string
  WsUrl :: string
  TemplateBase :: string
  LocalOutputDirectory :: string
  SourceType :: SourceType
  Latency :: nat
  AwaitStartSignal :: bool
  Layout :: string
  Token :: string
  BaseUrl :: string
  WebUrl :: string
  TrackID :: string
  AudioTrackID :: string
  VideoTrackID :: string
  AudioInCodec :: MimeType
  VideoInCodec :: MimeType
  AudioEnabled :: bool
  AudioTranscoding :: bool
  AudioOutCodec :: MimeType
  AudioBitrate :: int
  AudioFrequency :: int
  VideoEnabled :: bool
  VideoTranscoding :: bool
  VideoOutCodec :: MimeType
  VideoProfile :: Profile
  Width :: int
  Height :: int
  Depth :: int
  Framerate :: int
  VideoBitrate :: int
  KeyFrameInterval :: real
  Outputs :: "(EgressType \<times> OutputConfig) list"
  Failure :: "error list"
  Info :: EgressInfo

text \<open>
  What the package takes from outside: the URL parser of the standard library (the error
  text, or the scheme of the parsed URL), \<open>util.RedactStreamKey\<close>, \<open>os.MkdirAll\<close> and the
  clock, already formatted as \<open>2006-01-02T150405\<close>.
\<close>

record ConfigExtern =
  url_Parse :: "string \<Rightarrow> string + string"
  RedactStreamKey :: "string \<Rightarrow> string \<times> bool"
  MkdirAll :: "string \<Rightarrow> error option"
  timestamp :: string

subsection \<open>clean\<close>

text \<open>
  The loop of \<open>clean\<close>: \<open>for strings.HasPrefix(filepath, "../") { filepath = filepath[3:] }\<close>.
\<close>

function strip_parent :: "string \<Rightarrow> string" where
  "strip_parent filepath =
     (if HasPrefix filepath ''../'' then strip_parent (drop 3 filepath) else filepath)"
  by pat_completeness auto
termination
  by (relation "measure length") (auto simp: HasPrefix_def prefix_def)

declare strip_parent.simps [simp del]

definition clean :: "string \<Rightarrow> string" where
  "clean filepath0 =
     (let hasEndingSlash = HasSuffix filepath0 ''/'';
          filepath = strip_parent (path_Clean filepath0)
      in if filepath = [] \<or> filepath = ''.'' \<or> filepath = ''..'' then []
         else if hasEndingSlash then filepath @ ''/''
         else filepath)"

subsection \<open>Stream outputs\<close>

definition ValidateUrl :: "ConfigExtern \<Rightarrow> string \<Rightarrow> OutputType \<Rightarrow> error + string" where
  "ValidateUrl ext rawUrl outputType =
     (case url_Parse ext rawUrl of
        Inl errText \<Rightarrow> Inl (ErrInvalidUrl rawUrl errText)
      | Inr scheme \<Rightarrow>
          (case outputType of
             OutputTypeRTMP \<Rightarrow>
               (case RedactStreamKey ext rawUrl of
                  (redacted, ok) \<Rightarrow>
                    if \<not> ok
                    then Inl (ErrInvalidUrl rawUrl
                      ''rtmp urls must be of format rtmp(s)://{host}(/{path})/{app}/{stream_key}( live=1)'')
                    else Inr redacted)
           | OutputTypeRaw \<Rightarrow>
               (if scheme \<noteq> ''ws'' \<and> scheme \<noteq> ''wss''
                then Inl (ErrInvalidUrl rawUrl ''invalid scheme'')
                else Inr rawUrl)
           | _ \<Rightarrow> Inl (ErrInvalidInput ''stream output type'')))"

text \<open>The loop of \<open>getStreamConfig\<close> over the URLs, which fills \<open>StreamInfo\<close>.\<close>

fun streamInfoLoop ::
  "ConfigExtern \<Rightarrow> OutputType \<Rightarrow> (string \<rightharpoonup> string) \<Rightarrow> string list
     \<Rightarrow> error + (string \<rightharpoonup> string)" where
  "streamInfoLoop ext outputType info [] = Inr info"
| "streamInfoLoop ext outputType info (rawUrl # rest) =
     (case ValidateUrl ext rawUrl outputType of
        Inl err \<Rightarrow> Inl err
      | Inr redacted \<Rightarrow> streamInfoLoop ext outputType (info(rawUrl \<mapsto> redacted)) rest)"

text \<open>
  \<open>getStreamConfig\<close> writes to the pipeline configuration through its receiver before it
  validates the URLs, so the configuration is returned beside the result also when the
  result is an error.
\<close>

definition getStreamConfig ::
  "ConfigExtern \<Rightarrow> 'a PipelineConfig_scheme \<Rightarrow> OutputType \<Rightarrow> string list
     \<Rightarrow> (error + StreamConfig) \<times> 'a PipelineConfig_scheme" where
  "getStreamConfig ext p outputType urls =
     (let conf = \<lparr> OutputType = outputType, Urls = [], StreamInfo = Map.empty \<rparr>;
          (p1, conf1) =
            (case outputType of
               OutputTypeRTMP \<Rightarrow>
                 (p\<lparr>AudioOutCodec := MimeTypeAAC, VideoOutCodec := MimeTypeH264\<rparr>,
                  conf\<lparr>Urls := urls\<rparr>)
             | OutputTypeRaw \<Rightarrow>
                 (p\<lparr>AudioOutCodec := MimeTypeRawAudio\<rparr>, conf\<lparr>Urls := urls\<rparr>)
             | _ \<Rightarrow> (p, conf));
          p2 = (if KeyFrameInterval p1 = 0 then p1\<lparr>KeyFrameInterval := 4\<rparr> else p1)
      in case streamInfoLoop ext outputType Map.empty urls of
           Inl err \<Rightarrow> (Inl err, p2)
         | Inr info \<Rightarrow> (Inr (conf1\<lparr>StreamInfo := info\<rparr>), p2))"

subsection \<open>Codec resolution\<close>

text \<open>
  The two loops of \<open>validateAndUpdateOutputCodecs\<close> over the outputs. Both decide between
  the generic and the specific error by looking at \<open>p.AudioOutCodec\<close>, as the source does.
\<close>

fun audioCodecLoop ::
  "Tables \<Rightarrow> 'a PipelineConfig_scheme \<Rightarrow> MimeType list \<Rightarrow> (EgressType \<times> OutputConfig) list
     \<Rightarrow> error + MimeType list" where
  "audioCodecLoop tbl p compatibleAudioCodecs [] = Inr compatibleAudioCodecs"
| "audioCodecLoop tbl p compatibleAudioCodecs ((t, o') # rest) =
     (let compatible = GetMapIntersection compatibleAudioCodecs
                         (CodecCompatibility tbl (GetOutputType o'))
      in if length compatible = 0
         then (if AudioOutCodec p = []
               then Inl ErrNoCompatibleCodec
               else Inl (ErrIncompatible (GetOutputType o') (AudioOutCodec p)))
         else audioCodecLoop tbl p compatible rest)"

fun videoCodecLoop ::
  "Tables \<Rightarrow> 'a PipelineConfig_scheme \<Rightarrow> MimeType list \<Rightarrow> (EgressType \<times> OutputConfig) list
     \<Rightarrow> error + MimeType list" where
  "videoCodecLoop tbl p compatibleVideoCodecs [] = Inr compatibleVideoCodecs"
| "videoCodecLoop tbl p compatibleVideoCodecs ((t, o') # rest) =
     (let compatible = GetMapIntersection compatibleVideoCodecs
                         (CodecCompatibility tbl (GetOutputType o'))
      in if length compatible = 0
         then (if AudioOutCodec p = []
               then Inl ErrNoCompatibleCodec
               else Inl (ErrIncompatible (GetOutputType o') (VideoOutCodec p)))
         else videoCodecLoop tbl p compatible rest)"

definition validateAndUpdateOutputCodecs ::
  "Tables \<Rightarrow> 'a PipelineConfig_scheme \<Rightarrow> error + (MimeType list \<times> MimeType list)" where
  "validateAndUpdateOutputCodecs tbl p =
     (case (if AudioEnabled p
            then audioCodecLoop tbl p
                   (if AudioOutCodec p = [] then AllOutputAudioCodecs tbl else [AudioOutCodec p])
                   (Outputs p)
            else Inr []) of
        Inl err \<Rightarrow> Inl err
      | Inr compatibleAudioCodecs \<Rightarrow>
          (case (if VideoEnabled p
                 then videoCodecLoop tbl p
                        (if VideoOutCodec p = [] then AllOutputVideoCodecs tbl
                         else [VideoOutCodec p])
                        (Outputs p)
                 else Inr []) of
             Inl err \<Rightarrow> Inl err
           | Inr compatibleVideoCodecs \<Rightarrow> Inr (compatibleAudioCodecs, compatibleVideoCodecs)))"

subsection \<open>File names\<close>

text \<open>
  \<open>stringReplace\<close> runs over a Go map of replacements; the map is the list of its entries,
  in the order in which the loop meets them.
\<close>

fun stringReplace :: "string \<Rightarrow> (string \<times> string) list \<Rightarrow> string" where
  "stringReplace s [] = s"
| "stringReplace s ((template, v) # replacements) =
     stringReplace (Replace s template v) replacements"

text \<open>
  \<open>getFilenameInfo\<close>: the identifier and the replacements. The clock is a parameter: the
  time formatted as \<open>2006-01-02T150405\<close> and the \<open>{utc}\<close> value.
\<close>

definition getFilenameInfo ::
  "string \<Rightarrow> string \<Rightarrow> 'a PipelineConfig_scheme \<Rightarrow> string \<times> (string \<times> string) list" where
  "getFilenameInfo time utc p =
     (if RoomName (Info p) \<noteq> []
      then (RoomName (Info p),
            [(''{room_name}'', RoomName (Info p)),
             (''{room_id}'', RoomId (Info p)),
             (''{time}'', time),
             (''{utc}'', utc)])
      else (''web'', [(''{time}'', time), (''{utc}'', utc)]))"

text \<open>
  \<open>updateFilepath\<close> writes to the file configuration through its receiver; the
  configuration is returned beside the error, also when \<open>os.MkdirAll\<close> fails.
\<close>

definition updateFilepath ::
  "ConfigExtern \<Rightarrow> Tables \<Rightarrow> 'a PipelineConfig_scheme \<Rightarrow> string \<Rightarrow> (string \<times> string) list
     \<Rightarrow> FileConfig \<Rightarrow> error option \<times> FileConfig" where
  "updateFilepath ext tbl p identifier replacements o' =
     (let path0 = stringReplace (StorageFilepath o') replacements;
          ext' = FileExtensionForOutputType tbl (OutputType o');
          path1 =
            (if path0 = [] \<or> HasSuffix path0 ''/''
             then path0 @ identifier @ ''-'' @ timestamp ext @ ext'
             else if \<not> HasSuffix path0 ext'
             then (case LastIndexDot path0 of
                     Some extIdx \<Rightarrow>
                       if drop extIdx path0 \<in> set (FileExtensions tbl)
                       then take extIdx path0
                       else path0
                   | None \<Rightarrow> path0) @ ext'
             else path0);
          o1 = o'\<lparr>StorageFilepath := path1, Filename := path1\<rparr>;
          (dir, filename) = path_Split path1
      in if UploadConfig o1 = None
         then (case (if dir \<noteq> [] then MkdirAll ext dir else None) of
                 Some err \<Rightarrow> (Some err, o1)
               | None \<Rightarrow> (None, o1\<lparr>LocalFilepath := path1\<rparr>))
         else (let tempDir = path_Join [LocalOutputDirectory p, EgressId (Info p)]
               in case MkdirAll ext tempDir of
                    Some err \<Rightarrow> (Some err, o1)
                  | None \<Rightarrow> (None, o1\<lparr>LocalFilepath := path_Join [tempDir, filename]\<rparr>)))"

subsection \<open>Output parameters\<close>

text \<open>
  \<open>GetFileConfig\<close> looks the file output up and asserts its type; the assertion panics on
  another output.
\<close>

definition GetFileConfig :: "'a PipelineConfig_scheme \<Rightarrow> error + FileConfig option" where
  "GetFileConfig p =
     (case map_of (Outputs p) EgressTypeFile of
        None \<Rightarrow> Inr None
      | Some (File c) \<Rightarrow> Inr (Some c)
      | Some _ \<Rightarrow> Inl (Panic ''interface conversion''))"

text \<open>
  \<open>updateOutputType\<close> writes to the file configuration held by \<open>Outputs\<close>; the clock of
  \<open>getFilenameInfo\<close> is the pair \<open>(time, utc)\<close>.
\<close>

definition setFileConfig :: "FileConfig \<Rightarrow> 'a PipelineConfig_scheme \<Rightarrow> 'a PipelineConfig_scheme" where
  "setFileConfig c p =
     p\<lparr>Outputs := map (\<lambda>(t, o'). if t = EgressTypeFile then (t, File c) else (t, o')) (Outputs p)\<rparr>"

definition updateOutputType ::
  "ConfigExtern \<Rightarrow> Tables \<Rightarrow> string \<times> string \<Rightarrow> 'a PipelineConfig_scheme
     \<Rightarrow> MimeType list \<Rightarrow> MimeType list \<Rightarrow> error option \<times> 'a PipelineConfig_scheme" where
  "updateOutputType ext tbl clock p compatibleAudioCodecs compatibleVideoCodecs =
     (case GetFileConfig p of
        Inl err \<Rightarrow> (Some err, p)
      | Inr None \<Rightarrow> (None, p)
      | Inr (Some o') \<Rightarrow>
          if OutputType o' \<noteq> OutputTypeUnknownFile then (None, p)
          else
            (let ot =
                   (if \<not> VideoEnabled p
                    then GetOutputTypeCompatibleWithCodecs tbl (AudioOnlyFileOutputTypes tbl)
                           (Some compatibleAudioCodecs) None
                    else if \<not> AudioEnabled p
                    then GetOutputTypeCompatibleWithCodecs tbl (VideoOnlyFileOutputTypes tbl)
                           None (Some compatibleVideoCodecs)
                    else GetOutputTypeCompatibleWithCodecs tbl (AudioVideoFileOutputTypes tbl)
                           (Some compatibleAudioCodecs) (Some compatibleVideoCodecs))
             in if ot = OutputTypeUnknownFile then (Some ErrNoCompatibleFileOutputType, p)
                else
                  (let o1 = o'\<lparr>OutputType := ot\<rparr>;
                       (identifier, replacements) = getFilenameInfo (fst clock) (snd clock) p
                   in case updateFilepath ext tbl p identifier replacements o1 of
                        (err, o2) \<Rightarrow> (err, setFileConfig o2 p))))"

text \<open>
  The selection of the output codecs in \<open>validateAndUpdateOutputParams\<close>: the default codec
  of the first output whose default is compatible, or else the key that the loop over the
  compatible codecs meets last.
\<close>

fun defaultCodecLoop ::
  "(OutputType \<Rightarrow> MimeType) \<Rightarrow> MimeType list \<Rightarrow> (EgressType \<times> OutputConfig) list
     \<Rightarrow> MimeType option" where
  "defaultCodecLoop defaults compatible [] = None"
| "defaultCodecLoop defaults compatible ((t, o') # rest) =
     (if defaults (GetOutputType o') \<in> set compatible
      then Some (defaults (GetOutputType o'))
      else defaultCodecLoop defaults compatible rest)"

definition selectCodec ::
  "(OutputType \<Rightarrow> MimeType) \<Rightarrow> MimeType list \<Rightarrow> (EgressType \<times> OutputConfig) list
     \<Rightarrow> MimeType \<Rightarrow> MimeType" where
  "selectCodec defaults compatible outputs current =
     (let c1 = (case defaultCodecLoop defaults compatible outputs of
                  Some c \<Rightarrow> c
                | None \<Rightarrow> current)
      in if c1 = [] then (if compatible = [] then c1 else last compatible) else c1)"

definition validateAndUpdateOutputParams ::
  "ConfigExtern \<Rightarrow> Tables \<Rightarrow> string \<times> string \<Rightarrow> 'a PipelineConfig_scheme
     \<Rightarrow> error option \<times> 'a PipelineConfig_scheme" where
  "validateAndUpdateOutputParams ext tbl clock p =
     (case validateAndUpdateOutputCodecs tbl p of
        Inl err \<Rightarrow> (Some err, p)
      | Inr (compatibleAudioCodecs, compatibleVideoCodecs) \<Rightarrow>
          (case updateOutputType ext tbl clock p compatibleAudioCodecs compatibleVideoCodecs of
             (Some err, p1) \<Rightarrow> (Some err, p1)
           | (None, p1) \<Rightarrow>
               (let p2 = (if AudioEnabled p1
                          then p1\<lparr>AudioOutCodec :=
                                 selectCodec (DefaultAudioCodecs tbl) compatibleAudioCodecs
                                   (Outputs p1) (AudioOutCodec p1)\<rparr>
                          else p1);
                    p3 = (if VideoEnabled p2
                          then p2\<lparr>VideoOutCodec :=
                                 selectCodec (DefaultVideoCodecs tbl) compatibleVideoCodecs
                                   (Outputs p2) (VideoOutCodec p2)\<rparr>
                          else p2)
                in (None, p3))))"

subsection \<open>Update\<close>

text \<open>
  The request. A field of a protocol message carries the prefix of its message
  (\<open>rc_\<close> room composite, \<open>web_\<close>, \<open>tc_\<close> track composite, \<open>tr_\<close> track, \<open>req_\<close> the start
  request). The outputs of a request are values of the types \<open>'o\<close> (encoded outputs) and
  \<open>'d\<close> (the output of a track request), the advanced options of the type \<open>'a\<close>: the
  functions that read them (\<open>updateEncodedOutputs\<close>, \<open>updateDirectOutput\<close>, \<open>applyPreset\<close>,
  \<open>applyAdvanced\<close>) are not among the sources and are parameters, with
  \<open>egress.BuildEgressToken\<close> and the clock. \<open>NoRequest\<close> is a request that holds none of
  the four variants.
\<close>

datatype 'a Options = NoOptions | Preset int | Advanced 'a

record ('o, 'a) RoomCompositeEgressRequest =
  rc_RoomName :: string
  rc_Layout :: string
  rc_AudioOnly :: bool
  rc_VideoOnly :: bool
  rc_CustomBaseUrl :: string
  rc_Options :: "'a Options"
  rc_Outputs :: 'o

record ('o, 'a) WebEgressRequest =
  web_Url :: string
  web_AudioOnly :: bool
  web_VideoOnly :: bool
  web_AwaitStartSignal :: bool
  web_Options :: "'a Options"
  web_Outputs :: 'o

record ('o, 'a) TrackCompositeEgressRequest =
  tc_RoomName :: string
  tc_AudioTrackId :: string
  tc_VideoTrackId :: string
  tc_Options :: "'a Options"
  tc_Outputs :: 'o

record 'd TrackEgressRequest =
  tr_RoomName :: string
  tr_TrackId :: string
  tr_Output :: 'd

datatype ('o, 'a, 'd) Request =
    RoomComposite "('o, 'a) RoomCompositeEgressRequest"
  | Web "('o, 'a) WebEgressRequest"
  | TrackComposite "('o, 'a) TrackCompositeEgressRequest"
  | Track "'d TrackEgressRequest"
  | NoRequest

record ('o, 'a, 'd) StartEgressRequest =
  req_EgressId :: string
  req_RoomId :: string
  req_Token :: string
  req_WsUrl :: string
  req_Request :: "('o, 'a, 'd) Request"

record ('o, 'a, 'd) UpdateExtern = ConfigExtern +
  applyPreset :: "int \<Rightarrow> PipelineConfig \<Rightarrow> PipelineConfig"
  applyAdvanced :: "'a \<Rightarrow> PipelineConfig \<Rightarrow> error option \<times> PipelineConfig"
  updateEncodedOutputs :: "'o \<Rightarrow> PipelineConfig \<Rightarrow> error option \<times> PipelineConfig"
  updateDirectOutput :: "'d \<Rightarrow> PipelineConfig \<Rightarrow> error option \<times> PipelineConfig"
  BuildEgressToken :: "string \<Rightarrow> string \<Rightarrow> string \<Rightarrow> string \<Rightarrow> error + string"
  UnixNano :: int
  clock :: "string \<times> string"

definition webLatency :: nat where
  "webLatency = 2000000000"

definition sdkLatency :: nat where
  "sdkLatency = 3000000000"

text \<open>The defaults with which \<open>Update\<close> starts.\<close>

definition startWithDefaults ::
  "int \<Rightarrow> string \<Rightarrow> string \<Rightarrow> PipelineConfig \<Rightarrow> PipelineConfig" where
  "startWithDefaults now egressId roomId p =
     p\<lparr> Info := \<lparr> EgressId = egressId, RoomId = roomId, RoomName = [],
                   Status = EGRESS_STARTING, UpdatedAt = now, EndedAt = 0, Error = [] \<rparr>,
        AudioEnabled := False, AudioTranscoding := False, AudioOutCodec := [],
        AudioBitrate := 128, AudioFrequency := 44100,
        VideoEnabled := False, VideoTranscoding := False, VideoOutCodec := [],
        VideoProfile := ProfileMain, Width := 1920, Height := 1080, Depth := 24,
        Framerate := 30, VideoBitrate := 4500, KeyFrameInterval := 0 \<rparr>"

text \<open>The test of a parsed URL: \<open>err != nil || (Scheme != "http" && Scheme != "https")\<close>.\<close>

definition notHttpUrl :: "('o, 'a, 'd) UpdateExtern \<Rightarrow> string \<Rightarrow> bool" where
  "notHttpUrl ext u =
     (case url_Parse ext u of
        Inl _ \<Rightarrow> True
      | Inr scheme \<Rightarrow> scheme \<noteq> ''http'' \<and> scheme \<noteq> ''https'')"

text \<open>The encoding options and the output parameters of the three encoded variants.\<close>

definition encodedOptionsAndOutputs ::
  "('o, 'a, 'd) UpdateExtern \<Rightarrow> 'a Options \<Rightarrow> 'o \<Rightarrow> PipelineConfig
     \<Rightarrow> error option \<times> PipelineConfig" where
  "encodedOptionsAndOutputs ext opts outputs p =
     (case (case opts of
              NoOptions \<Rightarrow> (None, p)
            | Preset n \<Rightarrow> (None, applyPreset ext n p)
            | Advanced a \<Rightarrow> applyAdvanced ext a p) of
        (Some err, p1) \<Rightarrow> (Some err, p1)
      | (None, p1) \<Rightarrow> updateEncodedOutputs ext outputs p1)"

text \<open>
  The switch of \<open>Update\<close> over the variants of the request: an error and the flag
  \<open>connectionInfoRequired\<close>. \<open>Inl\<close> is a return from inside the switch (with the value
  returned: the track case returns \<open>nil\<close> when \<open>updateDirectOutput\<close> fails).
\<close>

definition updateRequest ::
  "('o, 'a, 'd) UpdateExtern \<Rightarrow> ('o, 'a, 'd) Request \<Rightarrow> PipelineConfig
     \<Rightarrow> (error option + bool) \<times> PipelineConfig" where
  "updateRequest ext request p =
     (case request of
        RoomComposite req \<Rightarrow>
          (let p1 = p\<lparr>SourceType := SourceTypeWeb, AwaitStartSignal := True,
                       Latency := webLatency,
                       Info := (Info p)\<lparr>RoomName := rc_RoomName req\<rparr>,
                       Layout := rc_Layout req\<rparr>;
               p2 = p1\<lparr>BaseUrl := (if rc_CustomBaseUrl req \<noteq> [] then rc_CustomBaseUrl req
                                     else TemplateBase p1)\<rparr>
           in if notHttpUrl ext (BaseUrl p2)
              then (Inl (Some (ErrInvalidInput ''template base url'')), p2)
              else
                (let p3 = (if \<not> rc_VideoOnly req
                           then p2\<lparr>AudioEnabled := True, AudioInCodec := MimeTypeRawAudio,
                                   AudioTranscoding := True\<rparr>
                           else p2);
                     p4 = (if \<not> rc_AudioOnly req
                           then p3\<lparr>VideoEnabled := True, VideoInCodec := MimeTypeRawVideo,
                                   VideoTranscoding := True\<rparr>
                           else p3)
                 in if \<not> AudioEnabled p4 \<and> \<not> VideoEnabled p4
                    then (Inl (Some (ErrInvalidInput ''audio_only and video_only'')), p4)
                    else (case encodedOptionsAndOutputs ext (rc_Options req) (rc_Outputs req) p4 of
                            (Some err, p5) \<Rightarrow> (Inl (Some err), p5)
                          | (None, p5) \<Rightarrow> (Inr True, p5))))
      | Web req \<Rightarrow>
          (let p1 = p\<lparr>SourceType := SourceTypeWeb,
                       AwaitStartSignal := web_AwaitStartSignal req,
                       Latency := webLatency, WebUrl := web_Url req\<rparr>
           in if notHttpUrl ext (WebUrl p1)
              then (Inl (Some (ErrInvalidInput ''web url'')), p1)
              else
                (let p3 = (if \<not> web_VideoOnly req
                           then p1\<lparr>AudioEnabled := True, AudioInCodec := MimeTypeRawAudio,
                                   AudioTranscoding := True\<rparr>
                           else p1);
                     p4 = (if \<not> web_AudioOnly req
                           then p3\<lparr>VideoEnabled := True, VideoInCodec := MimeTypeRawVideo,
                                   VideoTranscoding := True\<rparr>
                           else p3)
                 in if \<not> AudioEnabled p4 \<and> \<not> VideoEnabled p4
                    then (Inl (Some (ErrInvalidInput ''audio_only and video_only'')), p4)
                    else (case encodedOptionsAndOutputs ext (web_Options req) (web_Outputs req) p4 of
                            (Some err, p5) \<Rightarrow> (Inl (Some err), p5)
                          | (None, p5) \<Rightarrow> (Inr False, p5))))
      | TrackComposite req \<Rightarrow>
          (let p1 = p\<lparr>SourceType := SourceTypeSDK, Latency := sdkLatency,
                       Info := (Info p)\<lparr>RoomName := tc_RoomName req\<rparr>\<rparr>;
               p2 = (if tc_AudioTrackId req \<noteq> []
                     then p1\<lparr>AudioEnabled := True, AudioTrackID := tc_AudioTrackId req,
                             AudioTranscoding := True\<rparr>
                     else p1);
               p3 = (if tc_VideoTrackId req \<noteq> []
                     then p2\<lparr>VideoEnabled := True, VideoTrackID := tc_VideoTrackId req,
                             VideoTranscoding := True\<rparr>
                     else p2)
           in if \<not> AudioEnabled p3 \<and> \<not> VideoEnabled p3
              then (Inl (Some (ErrInvalidInput ''audio_track_id or video_track_id'')), p3)
              else (case encodedOptionsAndOutputs ext (tc_Options req) (tc_Outputs req) p3 of
                      (Some err, p4) \<Rightarrow> (Inl (Some err), p4)
                    | (None, p4) \<Rightarrow> (Inr True, p4)))
      | Track req \<Rightarrow>
          (let p1 = p\<lparr>SourceType := SourceTypeSDK, Latency := sdkLatency,
                       Info := (Info p)\<lparr>RoomName := tr_RoomName req\<rparr>,
                       TrackID := tr_TrackId req\<rparr>
           in if TrackID p1 = []
              then (Inl (Some (ErrInvalidInput ''track_id'')), p1)
              else (case updateDirectOutput ext (tr_Output req) p1 of
                      (Some err, p2) \<Rightarrow> (Inl None, p2)
                    | (None, p2) \<Rightarrow> (Inr True, p2)))
      | NoRequest \<Rightarrow> (Inl (Some (ErrInvalidInput ''request'')), p))"

text \<open>The connection information, after the switch.\<close>

definition updateConnectionInfo ::
  "('o, 'a, 'd) UpdateExtern \<Rightarrow> ('o, 'a, 'd) StartEgressRequest \<Rightarrow> PipelineConfig
     \<Rightarrow> error option \<times> PipelineConfig" where
  "updateConnectionInfo ext request p =
     (if RoomName (Info p) = [] then (Some (ErrInvalidInput ''room_name''), p)
      else
        (case (if req_Token request \<noteq> [] then Inr (p\<lparr>Token := req_Token request\<rparr>)
               else if ApiKey p \<noteq> [] \<and> ApiSecret p \<noteq> []
               then (case BuildEgressToken ext (EgressId (Info p)) (ApiKey p) (ApiSecret p)
                            (RoomName (Info p)) of
                       Inl err \<Rightarrow> Inl err
                     | Inr token \<Rightarrow> Inr (p\<lparr>Token := token\<rparr>))
               else Inl (ErrInvalidInput ''token or api key/secret'')) of
           Inl err \<Rightarrow> (Some err, p)
         | Inr p1 \<Rightarrow>
             if req_WsUrl request \<noteq> [] then (None, p1\<lparr>WsUrl := req_WsUrl request\<rparr>)
             else if WsUrl p1 = [] then (Some (ErrInvalidInput ''ws_url''), p1)
             else (None, p1)))"

definition Update ::
  "('o, 'a, 'd) UpdateExtern \<Rightarrow> Tables \<Rightarrow> PipelineConfig \<Rightarrow> ('o, 'a, 'd) StartEgressRequest
     \<Rightarrow> error option \<times> PipelineConfig" where
  "Update ext tbl p request =
     (if req_EgressId request = [] then (Some (ErrInvalidInput ''egressID''), p)
      else
        (case updateRequest ext (req_Request request)
                (startWithDefaults (UnixNano ext) (req_EgressId request) (req_RoomId request) p) of
           (Inl res, p1) \<Rightarrow> (res, p1)
         | (Inr connectionInfoRequired, p1) \<Rightarrow>
             (case (if connectionInfoRequired then updateConnectionInfo ext request p1
                    else (None, p1)) of
                (Some err, p2) \<Rightarrow> (Some err, p2)
              | (None, p2) \<Rightarrow>
                  if TrackID p2 = []
                  then validateAndUpdateOutputParams (ConfigExtern.truncate ext) tbl (clock ext) p2
                  else (None, p2))))"

(*CONFIG*)

section \<open>pkg/pipeline: the bus watch\<close>

text \<open>
  A \<open>Pipeline\<close> embeds its \<open>PipelineConfig\<close>. The packages \<open>source\<close> and \<open>output\<close> and the
  methods \<open>removeSink\<close>, \<open>stop\<close> and \<open>updateStartTime\<close> are not among the sources: the calls
  of \<open>updateStartTime\<close>, \<open>SDKSource.Playing\<close> and \<open>SDKSource.StreamStopped\<close> are recorded in
  the pipeline state, in order, and the others are parameters (record \<open>Extern\<close>). The
  logger is the list of the entries written.
\<close>

datatype LogLevel = LevelDebug | LevelInfo | LevelWarn | LevelError

definition parseDebugInfo :: "GError \<Rightarrow> string \<times> string \<times> string" where
  "parseDebugInfo gErr = (dbg_element gErr, dbg_name gErr, dbg_message gErr)"

definition msgClockProblem :: string where
  "msgClockProblem = ''GStreamer error: clock problem.''"

definition msgStreamingNotNegotiated :: string where
  "msgStreamingNotNegotiated = ''streaming stopped, reason not-negotiated (-4)''"

definition msgMuxer :: string where
  "msgMuxer = '':muxer''"

definition elementGstRtmp2Sink :: string where
  "elementGstRtmp2Sink = ''GstRtmp2Sink''"

definition elementGstAppSrc :: string where
  "elementGstAppSrc = ''GstAppSrc''"

definition elementSplitMuxSink :: string where
  "elementSplitMuxSink = ''GstSplitMuxSink''"

datatype GstState = StateVoidPending | StateNull | StateReady | StatePaused | StatePlaying

datatype MsgSource = AudioAppSource | VideoAppSource | pipelineSource | OtherSource string

record Pipeline = PipelineConfig +
  playing :: bool
  closed :: bool
  eosTimer :: "bool option"
  logs :: "(LogLevel \<times> string) list"
  startTimeUpdates :: "int list"
  sdkPlaying :: "MsgSource list"
  sdkStreamStopped :: "string list"

datatype 'e BusMessage =
    MessageEOS
  | MessageWarning GError
  | MessageError GError
  | MessageStateChanged GstState MsgSource
  | MessageElement 'e
  | MessageOther

record 'e Extern =
  GetStreamUrl :: "Pipeline \<Rightarrow> string \<Rightarrow> error + string"
  removeSink :: "Pipeline \<Rightarrow> string \<Rightarrow> GError \<Rightarrow> error option \<times> Pipeline"
  stop :: "Pipeline \<Rightarrow> Pipeline"
  handleMessageElement :: "Pipeline \<Rightarrow> 'e \<Rightarrow> error option \<times> Pipeline"
  GetStartTime :: int
  now :: int

definition logw :: "LogLevel \<Rightarrow> string \<Rightarrow> Pipeline \<Rightarrow> Pipeline" where
  "logw lvl m p = p\<lparr>logs := logs p @ [(lvl, m)]\<rparr>"

definition handleMessageEOS :: "'e Extern \<Rightarrow> Pipeline \<Rightarrow> Pipeline" where
  "handleMessageEOS ext p =
     (let p1 = (case eosTimer p of None \<Rightarrow> p | Some _ \<Rightarrow> p\<lparr>eosTimer := Some False\<rparr>)
      in stop ext (logw LevelInfo ''EOS received, stopping pipeline'' p1))"

definition handleMessageWarning :: "Pipeline \<Rightarrow> GError \<Rightarrow> error option \<times> Pipeline" where
  "handleMessageWarning p gErr =
     (case parseDebugInfo gErr of (element, name, message) \<Rightarrow>
        if Message gErr = msgClockProblem
        then (let err = ErrGstPipelineError gErr
              in (Some err, logw LevelError (Message gErr) p))
        else (None, logw LevelWarn (Message gErr) p))"

definition handleMessageError :: "'e Extern \<Rightarrow> Pipeline \<Rightarrow> GError \<Rightarrow> error option \<times> Pipeline" where
  "handleMessageError ext p gErr =
     (case parseDebugInfo gErr of (element, name, message) \<Rightarrow>
        let fatal = (Some (ErrGstPipelineError gErr), logw LevelError (Message gErr) p)
        in
        if element = elementGstRtmp2Sink then
          (case GetStreamUrl ext p name of
             Inl err \<Rightarrow> (Some err, logw LevelWarn ''rtmp output not found'' p)
           | Inr url \<Rightarrow> removeSink ext p url gErr)
        else if element = elementGstAppSrc then
          (if message = msgStreamingNotNegotiated
           then (None, (logw LevelDebug ''streaming stopped'' p)
                         \<lparr>sdkStreamStopped := sdkStreamStopped p @ [name]\<rparr>)
           else fatal)
        else if element = elementSplitMuxSink then
          (if message = msgMuxer \<and> closed p
           then (None, logw LevelDebug ''GstSplitMuxSink failure after sending EOS'' p)
           else fatal)
        else fatal)"

definition updateStartTime :: "int \<Rightarrow> Pipeline \<Rightarrow> Pipeline" where
  "updateStartTime t p = p\<lparr>startTimeUpdates := startTimeUpdates p @ [t]\<rparr>"

definition handleMessageStateChanged ::
  "'e Extern \<Rightarrow> Pipeline \<Rightarrow> GstState \<Rightarrow> MsgSource \<Rightarrow> Pipeline" where
  "handleMessageStateChanged ext p newState s =
     (if playing p then p
      else if newState \<noteq> StatePlaying then p
      else (case s of
              AudioAppSource \<Rightarrow>
                (logw LevelInfo ''playing'' p)\<lparr>sdkPlaying := sdkPlaying p @ [s]\<rparr>
            | VideoAppSource \<Rightarrow>
                (logw LevelInfo ''playing'' p)\<lparr>sdkPlaying := sdkPlaying p @ [s]\<rparr>
            | pipelineSource \<Rightarrow>
                (let p1 = (logw LevelInfo ''pipeline playing'' p)\<lparr>playing := True\<rparr>
                 in case SourceType p1 of
                      SourceTypeSDK \<Rightarrow> updateStartTime (GetStartTime ext) p1
                    | SourceTypeWeb \<Rightarrow> updateStartTime (now ext) p1
                    | SourceTypeUnset \<Rightarrow> p1)
            | OtherSource _ \<Rightarrow> p))"

definition messageWatch :: "'e Extern \<Rightarrow> Pipeline \<Rightarrow> 'e BusMessage \<Rightarrow> bool \<times> Pipeline" where
  "messageWatch ext p msg =
     (case msg of
        MessageEOS \<Rightarrow> (False, handleMessageEOS ext p)
      | _ \<Rightarrow>
        (let (err, p1) =
               (case msg of
                  MessageWarning g \<Rightarrow> handleMessageWarning p g
                | MessageError g \<Rightarrow> handleMessageError ext p g
                | MessageStateChanged st s \<Rightarrow> (None, handleMessageStateChanged ext p st s)
                | MessageElement e \<Rightarrow> handleMessageElement ext p e
                | _ \<Rightarrow> (None, p))
         in case err of
              Some e \<Rightarrow> (False, p1\<lparr>Failure := Failure p1 @ [e]\<rparr>)
            | None \<Rightarrow> (True, p1)))"


subsection \<open>The watch as a loop over the bus messages\<close>

fun run :: "('e Extern \<times> 'e BusMessage) list \<Rightarrow> Pipeline \<Rightarrow> Pipeline" where
  "run [] p = p"
| "run ((ext, msg) # rest) p =
     (case messageWatch ext p msg of
        (True, p') \<Rightarrow> run rest p'
      | (False, p') \<Rightarrow> p')"

definition keeps_start :: "'e Extern \<Rightarrow> bool" where
  "keeps_start ext =
     (\<forall>p url g e.
        playing (snd (removeSink ext p url g)) = playing p
        \<and> startTimeUpdates (snd (removeSink ext p url g)) = startTimeUpdates p
        \<and> playing (stop ext p) = playing p
        \<and> startTimeUpdates (stop ext p) = startTimeUpdates p
        \<and> playing (snd (handleMessageElement ext p e)) = playing p
        \<and> startTimeUpdates (snd (handleMessageElement ext p e)) = startTimeUpdates p)"

definition start_inv :: "Pipeline \<Rightarrow> bool" where
  "start_inv p = (length (startTimeUpdates p) \<le> 1 \<and> (playing p \<or> startTimeUpdates p = []))"


section \<open>pkg/service: the handler\<close>

text \<open>
  What \<open>NewHandler\<close> takes from outside: the RPC server and its topics, the listener of the
  local socket, the classification of errors of the package \<open>errors\<close> (\<open>Fatal\<close>, \<open>IsFatal\<close>),
  the text of an error, the clock, and \<open>pipeline.New\<close>. The pipeline is built from the
  configuration and from the handler's \<open>sendUpdate\<close>: \<open>pipeline.New\<close> returns its result, the
  configuration as it leaves it, and the status updates it sent through that callback.
  The status updates sent to the I/O client are collected in a list, in order.
\<close>

record 'p HandlerExtern =
  NewEgressHandlerServer :: "string \<Rightarrow> error option"
  RegisterUpdateStreamTopic :: "string \<Rightarrow> error option"
  RegisterStopEgressTopic :: "string \<Rightarrow> error option"
  net_Listen :: "string \<Rightarrow> error option"
  pipeline_New :: "PipelineConfig \<Rightarrow> (error + 'p) \<times> PipelineConfig \<times> EgressInfo list"
  Fatal :: "error \<Rightarrow> error"
  IsFatal :: "error \<Rightarrow> bool"
  error_Error :: "error \<Rightarrow> string"
  time_Now :: int

record 'p Handler =
  conf :: PipelineConfig
  pipeline :: 'p

definition getSocketAddress :: "string \<Rightarrow> string" where
  "getSocketAddress handlerTmpDir = path_Join [handlerTmpDir, ''service_rpc.sock'']"

definition sendUpdate :: "EgressInfo \<Rightarrow> EgressInfo list \<Rightarrow> EgressInfo list" where
  "sendUpdate info sent = sent @ [info]"

definition NewHandler ::
  "'p HandlerExtern \<Rightarrow> PipelineConfig
     \<Rightarrow> (error + 'p Handler) \<times> PipelineConfig \<times> EgressInfo list" where
  "NewHandler ext conf0 =
     (case NewEgressHandlerServer ext (HandlerID conf0) of
        Some err \<Rightarrow> (Inl (Fatal ext err), conf0, [])
      | None \<Rightarrow>
     (case RegisterUpdateStreamTopic ext (EgressId (Info conf0)) of
        Some err \<Rightarrow> (Inl (Fatal ext err), conf0, [])
      | None \<Rightarrow>
     (case RegisterStopEgressTopic ext (EgressId (Info conf0)) of
        Some err \<Rightarrow> (Inl (Fatal ext err), conf0, [])
      | None \<Rightarrow>
     (case net_Listen ext (getSocketAddress (TmpDir conf0)) of
        Some err \<Rightarrow> (Inl (Fatal ext err), conf0, [])
      | None \<Rightarrow>
     (case pipeline_New ext conf0 of
        (Inl err, conf1, sent) \<Rightarrow>
          if \<not> IsFatal ext err
          then (let now = time_Now ext;
                    info = (Info conf1)\<lparr>UpdatedAt := now, EndedAt := now,
                             Status := EGRESS_FAILED, Error := error_Error ext err\<rparr>
                in (Inl err, conf1\<lparr>Info := info\<rparr>, sendUpdate info sent))
          else (Inl err, conf1, sent)
      | (Inr pl, conf1, sent) \<Rightarrow> (Inr \<lparr> conf = conf1, pipeline = pl \<rparr>, conf1, sent))))))"

section \<open>Example values\<close>

(*EX*)
definition example_extern :: "unit Extern" where
  "example_extern =
     \<lparr> GetStreamUrl = (\<lambda>p n. if n = ''sink_0'' then Inr ''rtmp://host/app/key''
                              else Inl (ErrOther ''stream not found'')),
       removeSink = (\<lambda>p url g. (None, p)),
       stop = (\<lambda>p. p),
       handleMessageElement = (\<lambda>p e. (None, p)),
       GetStartTime = 1700000000,
       now = 1700000005 \<rparr>"

definition example_info :: EgressInfo where
  "example_info =
     \<lparr> EgressId = ''EG_1'', RoomId = ''RM_1'', RoomName = ''demo'', Status = EGRESS_STARTING,
       UpdatedAt = 1700000000, EndedAt = 0, Error = [] \<rparr>"

definition example_config :: PipelineConfig where
  "example_config =
     \<lparr> HandlerID = ''EGH_1'', TmpDir = ''/tmp/EGH_1'',
       ApiKey = ''key'', ApiSecret = ''secret'', WsUrl = ''ws://localhost:7880'',
       TemplateBase = ''https://example.com'', LocalOutputDirectory = ''/tmp/out'',
       SourceType = SourceTypeSDK, Latency = 3000000000, AwaitStartSignal = False,
       Layout = [], Token = [], BaseUrl = [], WebUrl = [], TrackID = [], AudioTrackID = [],
       VideoTrackID = [], AudioInCodec = [], VideoInCodec = [],
       AudioEnabled = False, AudioTranscoding = False, AudioOutCodec = [],
       AudioBitrate = 128, AudioFrequency = 44100,
       VideoEnabled = True, VideoTranscoding = True, VideoOutCodec = [],
       VideoProfile = ProfileMain, Width = 1920, Height = 1080, Depth = 24, Framerate = 30,
       VideoBitrate = 4500, KeyFrameInterval = 0,
       Outputs = [], Failure = [], Info = example_info \<rparr>"

definition example_tables :: Tables where
  "example_tables =
     \<lparr> CodecCompatibility = (\<lambda>t. case t of
           OutputTypeRaw \<Rightarrow> [MimeTypeRawAudio]
         | OutputTypeOGG \<Rightarrow> [MimeTypeOpus]
         | OutputTypeIVF \<Rightarrow> [MimeTypeVP8]
         | OutputTypeMP4 \<Rightarrow> [MimeTypeAAC, MimeTypeOpus, MimeTypeH264]
         | OutputTypeTS \<Rightarrow> [MimeTypeAAC, MimeTypeOpus, MimeTypeH264]
         | OutputTypeWebM \<Rightarrow> [MimeTypeOpus, MimeTypeVP8]
         | OutputTypeRTMP \<Rightarrow> [MimeTypeAAC, MimeTypeH264]
         | OutputTypeHLS \<Rightarrow> [MimeTypeAAC, MimeTypeH264]
         | OutputTypeUnknownFile \<Rightarrow> []),
       AllOutputAudioCodecs = [MimeTypeOpus, MimeTypeAAC],
       AllOutputVideoCodecs = [MimeTypeH264],
       DefaultAudioCodecs = (\<lambda>t. case t of
           OutputTypeRaw \<Rightarrow> MimeTypeRawAudio
         | OutputTypeOGG \<Rightarrow> MimeTypeOpus
         | OutputTypeMP4 \<Rightarrow> MimeTypeAAC
         | OutputTypeTS \<Rightarrow> MimeTypeAAC
         | OutputTypeWebM \<Rightarrow> MimeTypeOpus
         | OutputTypeRTMP \<Rightarrow> MimeTypeAAC
         | OutputTypeHLS \<Rightarrow> MimeTypeAAC
         | _ \<Rightarrow> []),
       DefaultVideoCodecs = (\<lambda>t. case t of
           OutputTypeIVF \<Rightarrow> MimeTypeVP8
         | OutputTypeMP4 \<Rightarrow> MimeTypeH264
         | OutputTypeTS \<Rightarrow> MimeTypeH264
         | OutputTypeWebM \<Rightarrow> MimeTypeVP8
         | OutputTypeRTMP \<Rightarrow> MimeTypeH264
         | OutputTypeHLS \<Rightarrow> MimeTypeH264
         | _ \<Rightarrow> []),
       FileExtensionForOutputType = (\<lambda>t. case t of
           OutputTypeRaw \<Rightarrow> ''.raw''
         | OutputTypeOGG \<Rightarrow> ''.ogg''
         | OutputTypeIVF \<Rightarrow> ''.ivf''
         | OutputTypeMP4 \<Rightarrow> ''.mp4''
         | OutputTypeTS \<Rightarrow> ''.ts''
         | OutputTypeWebM \<Rightarrow> ''.webm''
         | OutputTypeHLS \<Rightarrow> ''.m3u8''
         | _ \<Rightarrow> []),
       FileExtensions = [''.raw'', ''.ogg'', ''.ivf'', ''.mp4'', ''.ts'', ''.webm'', ''.m3u8''],
       AudioOnlyFileOutputTypes = [OutputTypeOGG, OutputTypeMP4],
       VideoOnlyFileOutputTypes = [OutputTypeMP4, OutputTypeWebM, OutputTypeIVF],
       AudioVideoFileOutputTypes = [OutputTypeMP4, OutputTypeWebM],
       GetOutputTypeCompatibleWithCodecs = (\<lambda>ts a v. OutputTypeUnknownFile) \<rparr>"

definition example_file :: "OutputType \<Rightarrow> string \<Rightarrow> FileConfig" where
  "example_file t path =
     \<lparr> OutputType = t, Filename = [], LocalFilepath = [], StorageFilepath = path,
       DisableManifest = False, UploadConfig = None \<rparr>"

definition pinned_video_config :: PipelineConfig where
  "pinned_video_config =
     example_config\<lparr> AudioEnabled := True, VideoEnabled := True, VideoOutCodec := MimeTypeH264,
       Outputs := [(EgressTypeFile, File (example_file OutputTypeOGG ''out.ogg''))] \<rparr>"

definition example_config_extern :: ConfigExtern where
  "example_config_extern =
     \<lparr> url_Parse = (\<lambda>u. if prefix ''ws://'' u then Inr ''ws''
                         else if prefix ''rtmp://'' u then Inr ''rtmp''
                         else if prefix ''http://'' u then Inr ''http''
                         else Inl ''missing protocol scheme''),
       RedactStreamKey = (\<lambda>u. if prefix ''rtmp://'' u then (''rtmp://host/app/{...}'', True)
                               else ([], False)),
       MkdirAll = (\<lambda>d. None),
       timestamp = ''2024-01-02T123456'' \<rparr>"

definition example_replacements :: "(string \<times> string) list" where
  "example_replacements = [(''{room_name}'', ''demo''), (''{time}'', ''2024-01-02T123456'')]"

definition example_pipeline :: Pipeline where
  "example_pipeline =
     \<lparr> HandlerID = ''EGH_1'', TmpDir = ''/tmp/EGH_1'',
       ApiKey = ''key'', ApiSecret = ''secret'', WsUrl = ''ws://localhost:7880'',
       TemplateBase = ''https://example.com'', LocalOutputDirectory = ''/tmp/out'',
       SourceType = SourceTypeSDK, Latency = 3000000000, AwaitStartSignal = False,
       Layout = [], Token = [], BaseUrl = [], WebUrl = [], TrackID = [], AudioTrackID = [],
       VideoTrackID = [], AudioInCodec = [], VideoInCodec = [],
       AudioEnabled = False, AudioTranscoding = False, AudioOutCodec = [],
       AudioBitrate = 128, AudioFrequency = 44100,
       VideoEnabled = True, VideoTranscoding = True, VideoOutCodec = [],
       VideoProfile = ProfileMain, Width = 1920, Height = 1080, Depth = 24, Framerate = 30,
       VideoBitrate = 4500, KeyFrameInterval = 0,
       Outputs = [], Failure = [], Info = example_info,
       playing = False, closed = False, eosTimer = None, logs = [],
       startTimeUpdates = [], sdkPlaying = [], sdkStreamStopped = [] \<rparr>"

definition example_rtmp_error :: "string \<Rightarrow> GError" where
  "example_rtmp_error n =
     \<lparr> Message = ''Could not connect'', dbg_element = ''GstRtmp2Sink'', dbg_name = n,
       dbg_message = ''Failed to connect'' \<rparr>"

(*DEFS*)

section \<open>Properties\<close>

subsection \<open>clean\<close>

lemma strip_parent_no_prefix: "\<not> HasPrefix (strip_parent s) ''../''"
  by (induction s rule: strip_parent.induct) (subst strip_parent.simps, simp)

lemma prefix_parent_append:
  assumes "prefix ''../'' (s @ ''/'')"
  shows "prefix ''../'' s \<or> s = ''..''"
proof -
  from assms obtain r where r: "s @ ''/'' = ''../'' @ r"
    by (auto simp: prefix_def)
  show ?thesis
  proof (cases r rule: rev_cases)
    case Nil
    with r show ?thesis by simp
  next
    case (snoc r' c)
    with r have "s = ''../'' @ r'" by simp
    then show ?thesis by simp
  qed
qed

lemma strip_parent_empty: "strip_parent [] = []"
  by (subst strip_parent.simps) (simp add: HasPrefix_def)

lemma strip_parent_dot: "strip_parent ''.'' = ''.''"
  by (subst strip_parent.simps) (simp add: HasPrefix_def)

lemma strip_parent_dotdot: "strip_parent ''..'' = ''..''"
  by (subst strip_parent.simps) (simp add: HasPrefix_def)

text \<open>
  C8. Whatever the input, the path returned by \<open>clean\<close> does not begin with \<open>../\<close>, and
  the inputs \<open>""\<close>, \<open>"."\<close> and \<open>".."\<close> are all mapped to the empty string.
\<close>

theorem clean_no_parent_prefix:
  "\<not> HasPrefix (clean filepath) ''../''
   \<and> clean [] = [] \<and> clean ''.'' = [] \<and> clean ''..'' = []"
proof -
  let ?f = "strip_parent (path_Clean filepath)"
  have np: "\<not> prefix ''../'' ?f"
    using strip_parent_no_prefix [of "path_Clean filepath"] by (simp add: HasPrefix_def)
  have "\<not> prefix ''../'' (clean filepath)"
  proof (cases "?f = [] \<or> ?f = ''.'' \<or> ?f = ''..''")
    case True
    then show ?thesis by (simp add: clean_def Let_def)
  next
    case False
    show ?thesis
    proof (cases "HasSuffix filepath ''/''")
      case True
      with False have eq: "clean filepath = ?f @ ''/''"
        by (simp add: clean_def Let_def)
      from False np have "\<not> prefix ''../'' (?f @ ''/'')"
        using prefix_parent_append [of ?f] by blast
      with eq show ?thesis by simp
    next
      case no: False
      with False have "clean filepath = ?f"
        by (simp add: clean_def Let_def)
      with np show ?thesis by simp
    qed
  qed
  moreover have "clean [] = []"
    by (simp add: clean_def Let_def path_Clean_def strip_parent_dot)
  moreover have "clean ''.'' = []"
    by (simp add: clean_def Let_def path_Clean_def clean_elem_def strip_parent_dot)
  moreover have "clean ''..'' = []"
    by (simp add: clean_def Let_def path_Clean_def clean_elem_def strip_parent_dotdot)
  ultimately show ?thesis by (simp add: HasPrefix_def)
qed

section \<open>Properties of the bus watch\<close>

subsection \<open>Warnings\<close>


subsection \<open>State changes\<close>

lemma stateChanged_ignored: "playing p \<Longrightarrow> handleMessageStateChanged ext p st s = p"
  by (simp add: handleMessageStateChanged_def)

lemma stateChanged_inv: "start_inv p \<Longrightarrow> start_inv (handleMessageStateChanged ext p st s)"
  by (auto simp: start_inv_def handleMessageStateChanged_def logw_def updateStartTime_def Let_def
           split: MsgSource.splits SourceType.splits if_splits)

lemma warning_inv: "start_inv p \<Longrightarrow> start_inv (snd (handleMessageWarning p g))"
  by (auto simp: start_inv_def handleMessageWarning_def parseDebugInfo_def logw_def Let_def)

lemma error_inv:
  assumes "start_inv p" "keeps_start ext"
  shows "start_inv (snd (handleMessageError ext p g))"
proof -
  have k: "playing (snd (removeSink ext p u g)) = playing p"
          "startTimeUpdates (snd (removeSink ext p u g)) = startTimeUpdates p" for u
    using assms(2) by (simp_all add: keeps_start_def)
  show ?thesis
    using assms(1) k
    by (auto simp: start_inv_def handleMessageError_def parseDebugInfo_def logw_def Let_def
             split: sum.splits)
qed

lemma eos_inv:
  assumes "start_inv p" "keeps_start ext"
  shows "start_inv (handleMessageEOS ext p)"
proof -
  have k: "playing (stop ext q) = playing q"
          "startTimeUpdates (stop ext q) = startTimeUpdates q" for q
    using assms(2) by (simp_all add: keeps_start_def)
  show ?thesis
    using assms(1)
    by (auto simp: start_inv_def handleMessageEOS_def k logw_def Let_def split: option.splits)
qed

lemma element_inv:
  assumes "start_inv p" "keeps_start ext"
  shows "start_inv (snd (handleMessageElement ext p e))"
proof -
  have k: "playing (snd (handleMessageElement ext p e)) = playing p"
          "startTimeUpdates (snd (handleMessageElement ext p e)) = startTimeUpdates p"
    using assms(2) by (simp_all add: keeps_start_def)
  show ?thesis using assms(1) by (simp add: start_inv_def k)
qed

lemma failure_inv: "start_inv (p\<lparr>Failure := f\<rparr>) = start_inv p"
  by (simp add: start_inv_def)

lemma messageWatch_inv:
  assumes "start_inv p" "keeps_start ext"
  shows "start_inv (snd (messageWatch ext p msg))"
proof (cases msg)
  case MessageEOS
  then show ?thesis using eos_inv [OF assms] by (simp add: messageWatch_def)
next
  case (MessageWarning g)
  then show ?thesis using warning_inv [OF assms(1), of g]
    by (cases "handleMessageWarning p g")
       (auto simp: messageWatch_def failure_inv split: option.splits)
next
  case (MessageError g)
  then show ?thesis using error_inv [OF assms, of g]
    by (cases "handleMessageError ext p g")
       (auto simp: messageWatch_def failure_inv split: option.splits)
next
  case (MessageStateChanged st s)
  then show ?thesis using stateChanged_inv [OF assms(1), of ext st s]
    by (simp add: messageWatch_def)
next
  case (MessageElement e)
  then show ?thesis using element_inv [OF assms, of e]
    by (cases "handleMessageElement ext p e")
       (auto simp: messageWatch_def failure_inv split: option.splits)
next
  case MessageOther
  then show ?thesis using assms(1) by (simp add: messageWatch_def)
qed

lemma run_inv:
  "start_inv p \<Longrightarrow> list_all (\<lambda>(ext, msg). keeps_start ext) msgs \<Longrightarrow> start_inv (run msgs p)"
proof (induction msgs arbitrary: p)
  case Nil
  then show ?case by simp
next
  case (Cons a msgs)
  obtain ext msg where a: "a = (ext, msg)" by (cases a)
  obtain b p' where w: "messageWatch ext p msg = (b, p')" by (cases "messageWatch ext p msg")
  from Cons.prems a have k: "keeps_start ext" and rest: "list_all (\<lambda>(ext, msg). keeps_start ext) msgs"
    by simp_all
  have inv': "start_inv p'"
    using messageWatch_inv [OF Cons.prems(1) k, of msg] w by simp
  show ?case
  proof (cases b)
    case True
    with a w show ?thesis using Cons.IH [OF inv' rest] by simp
  next
    case False
    with a w inv' show ?thesis by simp
  qed
qed

lemma start_inv_le: "start_inv p \<Longrightarrow> length (startTimeUpdates p) \<le> 1"
  by (simp add: start_inv_def)

text \<open>
  C10. Once \<open>playing\<close> is set, \<open>handleMessageStateChanged\<close> leaves the pipeline as it is.
  The message of the pipeline root that sets the flag records one start time: the one the
  SDK source reports for an SDK source, the wall clock for a web source. Over a whole run
  of the watch, from a pipeline that is not playing, the start time is set at most once
  (provided the handlers that are not among the sources leave the flag and the start time
  alone).
\<close>

theorem state_changed_ignored_once_playing:
  "(playing p \<longrightarrow> handleMessageStateChanged ext p st s = p)
   \<and> (\<not> playing p \<longrightarrow>
        handleMessageStateChanged ext p StatePlaying pipelineSource =
          (let p1 = p\<lparr>playing := True, logs := logs p @ [(LevelInfo, ''pipeline playing'')]\<rparr>
           in case SourceType p of
                SourceTypeSDK \<Rightarrow> p1\<lparr>startTimeUpdates := startTimeUpdates p @ [GetStartTime ext]\<rparr>
              | SourceTypeWeb \<Rightarrow> p1\<lparr>startTimeUpdates := startTimeUpdates p @ [now ext]\<rparr>
              | SourceTypeUnset \<Rightarrow> p1))
   \<and> (\<not> playing p0 \<and> startTimeUpdates p0 = [] \<and> list_all (\<lambda>(ext, msg). keeps_start ext) msgs
        \<longrightarrow> length (startTimeUpdates (run msgs p0)) \<le> 1)"
proof (intro conjI impI)
  assume "playing p"
  then show "handleMessageStateChanged ext p st s = p" by (rule stateChanged_ignored)
next
  assume "\<not> playing p"
  then show "handleMessageStateChanged ext p StatePlaying pipelineSource =
          (let p1 = p\<lparr>playing := True, logs := logs p @ [(LevelInfo, ''pipeline playing'')]\<rparr>
           in case SourceType p of
                SourceTypeSDK \<Rightarrow> p1\<lparr>startTimeUpdates := startTimeUpdates p @ [GetStartTime ext]\<rparr>
              | SourceTypeWeb \<Rightarrow> p1\<lparr>startTimeUpdates := startTimeUpdates p @ [now ext]\<rparr>
              | SourceTypeUnset \<Rightarrow> p1)"
    by (simp add: handleMessageStateChanged_def logw_def updateStartTime_def Let_def
             split: SourceType.splits)
next
  assume a: "\<not> playing p0 \<and> startTimeUpdates p0 = [] \<and> list_all (\<lambda>(ext, msg). keeps_start ext) msgs"
  then have "start_inv p0" by (simp add: start_inv_def)
  with a have "start_inv (run msgs p0)" using run_inv by blast
  then show "length (startTimeUpdates (run msgs p0)) \<le> 1" by (rule start_inv_le)
qed

subsection \<open>Errors of an RTMP sink\<close>

text \<open>
  C3 (as amended). For a bus error whose element is \<open>GstRtmp2Sink\<close> the handler looks up the
  URL bound to the element's name. When the lookup fails, its error is returned and
  \<open>messageWatch\<close> sends it to the failure channel and stops the watch. When it succeeds,
  \<open>removeSink\<close> is called for that URL alone and its result decides: no error, the watch
  goes on; an error, it is sent to the failure channel and the watch stops.
\<close>

theorem rtmp_sink_error_removes_sink:
  assumes "dbg_element g = elementGstRtmp2Sink"
  shows "messageWatch ext p (MessageError g) =
     (case GetStreamUrl ext p (dbg_name g) of
        Inl err \<Rightarrow>
          (False, p\<lparr>logs := logs p @ [(LevelWarn, ''rtmp output not found'')],
                     Failure := Failure p @ [err]\<rparr>)
      | Inr url \<Rightarrow>
          (case removeSink ext p url g of
             (None, p') \<Rightarrow> (True, p')
           | (Some e, p') \<Rightarrow> (False, p'\<lparr>Failure := Failure p' @ [e]\<rparr>)))"
  using assms
  by (simp add: messageWatch_def handleMessageError_def parseDebugInfo_def logw_def Let_def
           split: sum.splits option.splits prod.splits)

theorem rtmp_sink_error_removes_sink_witness:
  "dbg_element (example_rtmp_error ''sink_0'') = elementGstRtmp2Sink
   \<and> messageWatch example_extern example_pipeline (MessageError (example_rtmp_error ''sink_0''))
       = (True, example_pipeline)"
  using rtmp_sink_error_removes_sink [of "example_rtmp_error ''sink_0''" example_extern example_pipeline]
  by (simp add: example_rtmp_error_def elementGstRtmp2Sink_def example_extern_def)

text \<open>
  The claim as stated fails: an RTMP sink error whose element name is bound to no URL
  reaches the failure channel and ends the watch.
\<close>

theorem rtmp_sink_error_escalated:
  "dbg_element (example_rtmp_error ''sink_9'') = elementGstRtmp2Sink
   \<and> messageWatch example_extern example_pipeline (MessageError (example_rtmp_error ''sink_9''))
       = (False, example_pipeline\<lparr>logs := [(LevelWarn, ''rtmp output not found'')],
                                   Failure := [ErrOther ''stream not found'']\<rparr>)"
  by (simp add: messageWatch_def handleMessageError_def parseDebugInfo_def logw_def Let_def
        example_rtmp_error_def elementGstRtmp2Sink_def example_extern_def example_pipeline_def)

theorem state_changed_ignored_once_playing_witness:
  "playing (example_pipeline\<lparr>playing := True\<rparr>)
   \<and> handleMessageStateChanged example_extern (example_pipeline\<lparr>playing := True\<rparr>)
         StatePlaying pipelineSource = example_pipeline\<lparr>playing := True\<rparr>
   \<and> \<not> playing example_pipeline
   \<and> startTimeUpdates (handleMessageStateChanged example_extern example_pipeline
         StatePlaying pipelineSource) = [1700000000]
   \<and> length (startTimeUpdates
         (run [(example_extern, MessageStateChanged StatePlaying pipelineSource),
               (example_extern, MessageStateChanged StatePlaying pipelineSource)]
              example_pipeline)) \<le> 1"
proof -
  let ?msgs = "[(example_extern, MessageStateChanged StatePlaying pipelineSource),
                (example_extern, MessageStateChanged StatePlaying pipelineSource)]"
  note t = state_changed_ignored_once_playing [of "example_pipeline\<lparr>playing := True\<rparr>" example_extern StatePlaying
                   pipelineSource example_pipeline ?msgs]
  have k: "keeps_start example_extern"
    by (simp add: keeps_start_def example_extern_def)
  have a: "playing (example_pipeline\<lparr>playing := True\<rparr>)" by simp
  have b: "\<not> playing example_pipeline" by (simp add: example_pipeline_def)
  have c: "startTimeUpdates example_pipeline = []" by (simp add: example_pipeline_def)
  have d: "list_all (\<lambda>(ext, msg). keeps_start ext) ?msgs" using k by simp
  note u = state_changed_ignored_once_playing [of example_pipeline example_extern StatePlaying pipelineSource
                   example_pipeline ?msgs]
  note t1 = t [THEN conjunct1, THEN mp, OF a]
  note t2 = u [THEN conjunct2, THEN conjunct1, THEN mp, OF b]
  note t3 = t [THEN conjunct2, THEN conjunct2, THEN mp, OF conjI [OF b conjI [OF c d]]]
  have 2: "startTimeUpdates (handleMessageStateChanged example_extern example_pipeline
         StatePlaying pipelineSource) = [1700000000]"
    by (subst t2) (simp add: example_pipeline_def example_extern_def Let_def)
  from a t1 b 2 t3 show ?thesis by blast
qed

section \<open>Properties of pkg/config\<close>

subsection \<open>Stream outputs\<close>

lemma getStreamConfig_snd:
  "snd (getStreamConfig ext p ot urls) =
     (let p1 = (case ot of
                  OutputTypeRTMP \<Rightarrow> p\<lparr>AudioOutCodec := MimeTypeAAC, VideoOutCodec := MimeTypeH264\<rparr>
                | OutputTypeRaw \<Rightarrow> p\<lparr>AudioOutCodec := MimeTypeRawAudio\<rparr>
                | _ \<Rightarrow> p)
      in if KeyFrameInterval p1 = 0 then p1\<lparr>KeyFrameInterval := 4\<rparr> else p1)"
  by (cases ot; cases "streamInfoLoop ext ot Map.empty urls")
     (simp_all add: getStreamConfig_def Let_def)

text \<open>
  C9. Whatever the codecs selected before and whatever the URLs (also when one of them is
  rejected), \<open>getStreamConfig\<close> for an RTMP output leaves the audio output codec at AAC and
  the video output codec at H264, and for a raw websocket output the audio output codec at
  raw audio (the video codec untouched); in every case a key frame interval of 0 becomes
  4 and any other interval stays.
\<close>

theorem stream_config_sets_codecs:
  "AudioOutCodec (snd (getStreamConfig ext p OutputTypeRTMP urls)) = MimeTypeAAC
   \<and> VideoOutCodec (snd (getStreamConfig ext p OutputTypeRTMP urls)) = MimeTypeH264
   \<and> AudioOutCodec (snd (getStreamConfig ext p OutputTypeRaw urls)) = MimeTypeRawAudio
   \<and> VideoOutCodec (snd (getStreamConfig ext p OutputTypeRaw urls)) = VideoOutCodec p
   \<and> KeyFrameInterval (snd (getStreamConfig ext p outputType urls)) =
       (if KeyFrameInterval p = 0 then 4 else KeyFrameInterval p)"
  by (cases outputType) (simp_all add: getStreamConfig_snd Let_def)

subsection \<open>Codec resolution\<close>

text \<open>
  C1 (the code departs from the claim). With a pinned video codec that the only output
  does not accept, and no pinned audio codec, \<open>validateAndUpdateOutputCodecs\<close> returns the
  generic \<open>ErrNoCompatibleCodec\<close> and not \<open>ErrIncompatible\<close> with the output type and the
  pinned codec: the video loop tests \<open>p.AudioOutCodec\<close> where the audio loop, and the
  comment above the branch, call for the pinned codec of the loop.
\<close>

theorem pinned_video_codec_generic_error:
  assumes "VideoEnabled p" and "VideoOutCodec p \<noteq> []" and "AudioOutCodec p = []"
    and "Outputs p = [(t, o')]"
    and "VideoOutCodec p \<notin> set (CodecCompatibility tbl (GetOutputType o'))"
    and "\<not> AudioEnabled p
         \<or> (\<exists>c \<in> set (AllOutputAudioCodecs tbl). c \<in> set (CodecCompatibility tbl (GetOutputType o')))"
  shows "validateAndUpdateOutputCodecs tbl p = Inl ErrNoCompatibleCodec"
  using assms
  by (auto simp: validateAndUpdateOutputCodecs_def GetMapIntersection_def Let_def filter_empty_conv)

theorem pinned_video_codec_generic_error_witness:
  "VideoEnabled pinned_video_config
   \<and> VideoOutCodec pinned_video_config = MimeTypeH264
   \<and> AudioOutCodec pinned_video_config = []
   \<and> Outputs pinned_video_config = [(EgressTypeFile, File (example_file OutputTypeOGG ''out.ogg''))]
   \<and> validateAndUpdateOutputCodecs example_tables pinned_video_config = Inl ErrNoCompatibleCodec"
proof -
  let ?o = "File (example_file OutputTypeOGG ''out.ogg'')"
  have 1: "VideoEnabled pinned_video_config"
    by (simp add: pinned_video_config_def)
  have 2: "VideoOutCodec pinned_video_config = MimeTypeH264"
    by (simp add: pinned_video_config_def)
  have n2: "VideoOutCodec pinned_video_config \<noteq> []"
    by (simp add: pinned_video_config_def MimeTypeH264_def)
  have 3: "AudioOutCodec pinned_video_config = []"
    by (simp add: pinned_video_config_def example_config_def)
  have 4: "Outputs pinned_video_config = [(EgressTypeFile, ?o)]"
    by (simp add: pinned_video_config_def)
  have 5: "VideoOutCodec pinned_video_config
             \<notin> set (CodecCompatibility example_tables (GetOutputType ?o))"
    by (simp add: pinned_video_config_def example_tables_def example_file_def
          MimeTypeH264_def MimeTypeOpus_def)
  have 6: "\<not> AudioEnabled pinned_video_config
           \<or> (\<exists>c \<in> set (AllOutputAudioCodecs example_tables).
                 c \<in> set (CodecCompatibility example_tables (GetOutputType ?o)))"
    by (simp add: example_tables_def example_file_def)
  from pinned_video_codec_generic_error [OF 1 n2 3 4 5 6] 1 2 3 4 show ?thesis by simp
qed

subsection \<open>File names\<close>

lemma replace_from_absent: "\<not> Contains s old \<Longrightarrow> replace_from old new s = s"
proof (induction old new s rule: replace_from.induct)
  case (1 old new s)
  show ?case
  proof (cases s)
    case Nil
    then show ?thesis by (subst replace_from.simps) simp
  next
    case (Cons c cs)
    with "1.prems" have np: "\<not> prefix old s" and nc: "\<not> Contains cs old" by simp_all
    from np have ne: "old \<noteq> []" by auto
    from "1.IH"(2) [OF _ np] ne Cons nc have "replace_from old new cs = cs" by simp
    with np ne Cons show ?thesis by (subst replace_from.simps) simp
  qed
qed

lemma Contains_empty: "Contains s []"
  by (cases s) simp_all

lemma Replace_absent: "\<not> Contains s old \<Longrightarrow> Replace s old new = s"
  using Contains_empty [of s] by (auto simp: Replace_def replace_from_absent)

lemma stringReplace_absent:
  "list_all (\<lambda>(template, v). \<not> Contains s template) replacements
     \<Longrightarrow> stringReplace s replacements = s"
  by (induction replacements) (auto simp: Replace_absent)

text \<open>
  C6 (as amended). Applying \<open>stringReplace\<close> a second time changes nothing when no template
  of the replacements occurs in the result of the first application.
\<close>

theorem stringReplace_idempotent_when_resolved:
  assumes "list_all (\<lambda>(template, v). \<not> Contains (stringReplace s replacements) template) replacements"
  shows "stringReplace (stringReplace s replacements) replacements = stringReplace s replacements"
  using assms by (rule stringReplace_absent)

lemma stringReplace_example: "stringReplace ''r_{room_name}_{time}.mp4'' example_replacements = ''r_demo_2024-01-02T123456.mp4''"
  unfolding example_replacements_def by code_simp

text \<open>
  The claim as stated fails: a value that holds its own template is expanded again by the
  second application.
\<close>

theorem stringReplace_not_idempotent:
  "stringReplace (stringReplace ''{room_name}'' [(''{room_name}'', ''a{room_name}'')])
       [(''{room_name}'', ''a{room_name}'')]
     \<noteq> stringReplace ''{room_name}'' [(''{room_name}'', ''a{room_name}'')]"
  by code_simp

theorem stringReplace_idempotent_when_resolved_witness:
  "list_all (\<lambda>(template, v).
       \<not> Contains (stringReplace ''r_{room_name}_{time}.mp4'' example_replacements) template)
     example_replacements
   \<and> stringReplace (stringReplace ''r_{room_name}_{time}.mp4'' example_replacements)
         example_replacements
       = ''r_demo_2024-01-02T123456.mp4''"
proof -
  have h: "list_all (\<lambda>(template, v).
       \<not> Contains (stringReplace ''r_{room_name}_{time}.mp4'' example_replacements) template)
     example_replacements"
    by code_simp
  from stringReplace_idempotent_when_resolved [OF h] stringReplace_example h show ?thesis by simp
qed

lemma LastIndexDot_none: "CHR ''.'' \<notin> set x \<Longrightarrow> LastIndexDot x = None"
  by (induction x) auto

lemma LastIndexDot_append:
  "CHR ''.'' \<notin> set x \<Longrightarrow> LastIndexDot (stem @ CHR ''.'' # x) = Some (length stem)"
  by (induction stem) (auto simp: LastIndexDot_none)

lemma updateFilepath_path:
  "StorageFilepath (snd (updateFilepath ext tbl p identifier replacements o')) =
     (let path0 = stringReplace (StorageFilepath o') replacements;
          ext' = FileExtensionForOutputType tbl (OutputType o')
      in if path0 = [] \<or> HasSuffix path0 ''/''
         then path0 @ identifier @ ''-'' @ timestamp ext @ ext'
         else if \<not> HasSuffix path0 ext'
         then (case LastIndexDot path0 of
                 Some extIdx \<Rightarrow>
                   if drop extIdx path0 \<in> set (FileExtensions tbl)
                   then take extIdx path0
                   else path0
               | None \<Rightarrow> path0) @ ext'
         else path0)"
proof -
  define q where "q = stringReplace (StorageFilepath o') replacements"
  define e where "e = FileExtensionForOutputType tbl (OutputType o')"
  define r where "r = (if q = [] \<or> HasSuffix q ''/''
         then q @ identifier @ ''-'' @ timestamp ext @ e
         else if \<not> HasSuffix q e
         then (case LastIndexDot q of
                 Some extIdx \<Rightarrow>
                   if drop extIdx q \<in> set (FileExtensions tbl) then take extIdx q else q
               | None \<Rightarrow> q) @ e
         else q)"
  have "StorageFilepath (snd (updateFilepath ext tbl p identifier replacements o')) = r"
    unfolding updateFilepath_def Let_def q_def [symmetric] e_def [symmetric] r_def [symmetric]
    by (simp split: prod.split option.split)
  then show ?thesis unfolding Let_def r_def q_def e_def .
qed


lemma updateFilepath_generated:
  assumes "stringReplace (StorageFilepath o') replacements = path0"
    and "path0 = [] \<or> HasSuffix path0 ''/''"
  shows "StorageFilepath (snd (updateFilepath ext tbl p identifier replacements o')) =
           path0 @ identifier @ ''-'' @ timestamp ext
             @ FileExtensionForOutputType tbl (OutputType o')"
  unfolding updateFilepath_path Let_def assms(1) using assms(2) by simp

lemma updateFilepath_kept:
  assumes "stringReplace (StorageFilepath o') replacements = path0"
    and "path0 \<noteq> []" and "\<not> HasSuffix path0 ''/''"
    and "HasSuffix path0 (FileExtensionForOutputType tbl (OutputType o'))"
  shows "StorageFilepath (snd (updateFilepath ext tbl p identifier replacements o')) = path0"
  unfolding updateFilepath_path Let_def assms(1) using assms(2-4) by simp

lemma updateFilepath_replaced:
  assumes "stringReplace (StorageFilepath o') replacements = stem @ CHR ''.'' # x"
    and "\<not> HasSuffix (stem @ CHR ''.'' # x) ''/''"
    and "\<not> HasSuffix (stem @ CHR ''.'' # x) (FileExtensionForOutputType tbl (OutputType o'))"
    and "CHR ''.'' \<notin> set x"
    and "CHR ''.'' # x \<in> set (FileExtensions tbl)"
  shows "StorageFilepath (snd (updateFilepath ext tbl p identifier replacements o')) =
           stem @ FileExtensionForOutputType tbl (OutputType o')"
  unfolding updateFilepath_path Let_def assms(1)
  using assms(2,3,5) by (simp add: LastIndexDot_append [OF assms(4)])

lemma updateFilepath_appended:
  assumes "stringReplace (StorageFilepath o') replacements = path0"
    and "path0 \<noteq> []" and "\<not> HasSuffix path0 ''/''"
    and "\<not> HasSuffix path0 (FileExtensionForOutputType tbl (OutputType o'))"
    and "list_all (\<lambda>e. \<not> HasSuffix path0 e) (FileExtensions tbl)"
  shows "StorageFilepath (snd (updateFilepath ext tbl p identifier replacements o')) =
           path0 @ FileExtensionForOutputType tbl (OutputType o')"
proof -
  have nd: "drop i path0 \<notin> set (FileExtensions tbl)" for i
  proof
    assume "drop i path0 \<in> set (FileExtensions tbl)"
    with assms(5) have "\<not> HasSuffix path0 (drop i path0)" by (simp add: list_all_iff)
    then show False by (simp add: HasSuffix_def suffix_drop)
  qed
  show ?thesis
    unfolding updateFilepath_path Let_def assms(1)
    using assms(2-4) by (simp add: nd split: option.splits)
qed

text \<open>
  C5 (as amended). With \<open>path0\<close> the storage path after the substitution of the tokens and
  \<open>ext'\<close> the extension of the output type: an empty path or one that ends with a slash gets
  the file name \<open>identifier-timestamp\<close> and the extension; a path that already ends with the
  extension is kept as it is; a path that does not, and ends with another extension of
  the table (a dot and then no other dot), loses that extension and gets the right one;
  a path that ends with no extension of the table gets the extension appended.
\<close>

theorem updateFilepath_storage_path:
  "(let path0 = stringReplace (StorageFilepath o') replacements;
        ext' = FileExtensionForOutputType tbl (OutputType o');
        result = StorageFilepath (snd (updateFilepath ext tbl p identifier replacements o'))
    in (path0 = [] \<or> HasSuffix path0 ''/''
          \<longrightarrow> result = path0 @ identifier @ ''-'' @ timestamp ext @ ext')
     \<and> (path0 \<noteq> [] \<and> \<not> HasSuffix path0 ''/'' \<and> HasSuffix path0 ext'
          \<longrightarrow> result = path0)
     \<and> (path0 \<noteq> [] \<and> \<not> HasSuffix path0 ''/'' \<and> \<not> HasSuffix path0 ext'
          \<and> path0 = stem @ CHR ''.'' # x \<and> CHR ''.'' \<notin> set x
          \<and> CHR ''.'' # x \<in> set (FileExtensions tbl)
          \<longrightarrow> result = stem @ ext')
     \<and> (path0 \<noteq> [] \<and> \<not> HasSuffix path0 ''/'' \<and> \<not> HasSuffix path0 ext'
          \<and> list_all (\<lambda>e. \<not> HasSuffix path0 e) (FileExtensions tbl)
          \<longrightarrow> result = path0 @ ext'))"
  unfolding Let_def
proof (intro conjI impI)
  assume "stringReplace (StorageFilepath o') replacements = []
          \<or> HasSuffix (stringReplace (StorageFilepath o') replacements) ''/''"
  then show "StorageFilepath (snd (updateFilepath ext tbl p identifier replacements o')) =
      stringReplace (StorageFilepath o') replacements @ identifier @ ''-'' @ timestamp ext
        @ FileExtensionForOutputType tbl (OutputType o')"
    by (rule updateFilepath_generated [OF refl])
next
  assume a: "stringReplace (StorageFilepath o') replacements \<noteq> []
     \<and> \<not> HasSuffix (stringReplace (StorageFilepath o') replacements) ''/''
     \<and> HasSuffix (stringReplace (StorageFilepath o') replacements)
         (FileExtensionForOutputType tbl (OutputType o'))"
  show "StorageFilepath (snd (updateFilepath ext tbl p identifier replacements o')) =
      stringReplace (StorageFilepath o') replacements"
    using a by (intro updateFilepath_kept [OF refl]) blast+
next
  assume a: "stringReplace (StorageFilepath o') replacements \<noteq> []
     \<and> \<not> HasSuffix (stringReplace (StorageFilepath o') replacements) ''/''
     \<and> \<not> HasSuffix (stringReplace (StorageFilepath o') replacements)
           (FileExtensionForOutputType tbl (OutputType o'))
     \<and> stringReplace (StorageFilepath o') replacements = stem @ CHR ''.'' # x
     \<and> CHR ''.'' \<notin> set x
     \<and> CHR ''.'' # x \<in> set (FileExtensions tbl)"
  then have e: "stringReplace (StorageFilepath o') replacements = stem @ CHR ''.'' # x"
    by blast
  from a have 1: "\<not> HasSuffix (stem @ CHR ''.'' # x) ''/''"
    and 2: "\<not> HasSuffix (stem @ CHR ''.'' # x) (FileExtensionForOutputType tbl (OutputType o'))"
    unfolding e by blast+
  from a have 3: "CHR ''.'' \<notin> set x" and 4: "CHR ''.'' # x \<in> set (FileExtensions tbl)"
    by blast+
  show "StorageFilepath (snd (updateFilepath ext tbl p identifier replacements o')) =
      stem @ FileExtensionForOutputType tbl (OutputType o')"
    by (rule updateFilepath_replaced [OF e 1 2 3 4])
next
  assume a: "stringReplace (StorageFilepath o') replacements \<noteq> []
     \<and> \<not> HasSuffix (stringReplace (StorageFilepath o') replacements) ''/''
     \<and> \<not> HasSuffix (stringReplace (StorageFilepath o') replacements)
           (FileExtensionForOutputType tbl (OutputType o'))
     \<and> list_all (\<lambda>e. \<not> HasSuffix (stringReplace (StorageFilepath o') replacements) e)
          (FileExtensions tbl)"
  show "StorageFilepath (snd (updateFilepath ext tbl p identifier replacements o')) =
      stringReplace (StorageFilepath o') replacements
        @ FileExtensionForOutputType tbl (OutputType o')"
    using a by (intro updateFilepath_appended [OF refl]) blast+
qed

text \<open>
  The claim as stated fails: a path that already ends with the right extension is none of
  the first two cases, and the extension is not appended to it.
\<close>

theorem updateFilepath_keeps_correct_extension:
  "StorageFilepath (snd (updateFilepath example_config_extern example_tables example_config
       ''demo'' example_replacements (example_file OutputTypeMP4 ''a.mp4''))) = ''a.mp4''
   \<and> ''a.mp4'' \<noteq> ''a.mp4'' @ FileExtensionForOutputType example_tables OutputTypeMP4"
proof -
  have r: "stringReplace ''a.mp4'' example_replacements = ''a.mp4''"
    by code_simp
  show ?thesis
    unfolding updateFilepath_path
    by (simp add: Let_def example_file_def r example_tables_def HasSuffix_def suffix_to_prefix)
qed

theorem updateFilepath_storage_path_witness:
  "StorageFilepath (snd (updateFilepath example_config_extern example_tables example_config
       ''demo'' example_replacements (example_file OutputTypeMP4 ''recordings/'')))
     = ''recordings/demo-2024-01-02T123456.mp4''
   \<and> StorageFilepath (snd (updateFilepath example_config_extern example_tables example_config
       ''demo'' example_replacements (example_file OutputTypeMP4 ''r_{room_name}.mp4'')))
     = ''r_demo.mp4''
   \<and> StorageFilepath (snd (updateFilepath example_config_extern example_tables example_config
       ''demo'' example_replacements (example_file OutputTypeMP4 ''r_{room_name}.ogg'')))
     = ''r_demo.mp4''
   \<and> StorageFilepath (snd (updateFilepath example_config_extern example_tables example_config
       ''demo'' example_replacements (example_file OutputTypeMP4 ''r_{room_name}'')))
     = ''r_demo.mp4''"
proof -
  have r1: "stringReplace ''recordings/'' example_replacements = ''recordings/''"
    and r2: "stringReplace ''r_{room_name}.mp4'' example_replacements = ''r_demo.mp4''"
    and r3: "stringReplace ''r_{room_name}.ogg'' example_replacements = ''r_demo.ogg''"
    and r4: "stringReplace ''r_{room_name}'' example_replacements = ''r_demo''"
    by code_simp+
  note ev = example_file_def example_tables_def example_config_extern_def HasSuffix_def
    suffix_to_prefix
  note t = updateFilepath_storage_path [of _ example_replacements example_tables example_config_extern example_config
      "''demo''", unfolded Let_def]
  have 1: "StorageFilepath (snd (updateFilepath example_config_extern example_tables example_config
       ''demo'' example_replacements (example_file OutputTypeMP4 ''recordings/'')))
     = ''recordings/demo-2024-01-02T123456.mp4''"
    using t [where o' = "example_file OutputTypeMP4 ''recordings/''", THEN conjunct1]
    by (simp add: ev r1)
  have 2: "StorageFilepath (snd (updateFilepath example_config_extern example_tables example_config
       ''demo'' example_replacements (example_file OutputTypeMP4 ''r_{room_name}.mp4'')))
     = ''r_demo.mp4''"
    using t [where o' = "example_file OutputTypeMP4 ''r_{room_name}.mp4''",
             THEN conjunct2, THEN conjunct1]
    by (simp add: ev r2)
  have 3: "StorageFilepath (snd (updateFilepath example_config_extern example_tables example_config
       ''demo'' example_replacements (example_file OutputTypeMP4 ''r_{room_name}.ogg'')))
     = ''r_demo.mp4''"
    using t [where o' = "example_file OutputTypeMP4 ''r_{room_name}.ogg''"
               and stem = "''r_demo''" and x = "''ogg''",
             THEN conjunct2, THEN conjunct2, THEN conjunct1]
    by (simp add: ev r3)
  have 4: "StorageFilepath (snd (updateFilepath example_config_extern example_tables example_config
       ''demo'' example_replacements (example_file OutputTypeMP4 ''r_{room_name}'')))
     = ''r_demo.mp4''"
    using t [where o' = "example_file OutputTypeMP4 ''r_{room_name}''",
             THEN conjunct2, THEN conjunct2, THEN conjunct2]
    by (simp add: ev r4)
  from 1 2 3 4 show ?thesis by blast
qed


end
